theory Spec2Isabelle
  imports Complex_Main "HOL-Library.AList" "HOL-Library.Log_Nat" "HOL-Library.Monad_Syntax"
begin

section \<open>Values shared by the modules\<close>

text \<open>
  Python's \<^verbatim>\<open>Decimal\<close> quantities are modelled as exact rationals: sums, products and
  comparisons are the mathematical ones, and a division by zero is written out as the
  exception Python raises. The rounding of the decimal context (28 significant digits) is
  not modelled. Conversions to binary floating point (\<^verbatim>\<open>float(...)\<close>) are modelled
  separately, by correct rounding to 53 significant bits, where the source performs them.
  Log output is not part of the model, and building a log message is taken not to raise.
\<close>

type_synonym decimal = rat

record datetime =
  year :: nat
  month :: nat
  day :: nat
  hour :: nat
  minute :: nat
  second :: nat
  microsecond :: nat

datatype py_error =
    DivisionByZero
  | InvalidOperation
  | OverflowError
  | ValueError
  | TypeError
  | KeyError
  | IndexError
  | AttributeError
  | GatewayError string

text \<open>\<^verbatim>\<open>src/exchange/base.py\<close>: order sides and types, and the \<^verbatim>\<open>Order\<close> dataclass.\<close>

datatype OrderSide = BUY | SELL

datatype OrderType = MARKET | LIMIT

record order =
  order_id :: string
  order_symbol :: string
  order_side :: OrderSide
  order_type :: OrderType
  price :: decimal
  amount :: decimal
  filled :: decimal
  remaining :: decimal
  status :: string
  timestamp :: datetime
  fee :: "decimal option"
  fee_currency :: "string option"

text \<open>\<^verbatim>\<open>src/strategy/executor.py\<close>: the \<^verbatim>\<open>ArbitragePosition\<close> dataclass.\<close>

record arbitrage_position =
  symbol :: string
  base_currency :: string
  spot_qty :: decimal
  spot_avg_price :: decimal
  spot_value :: decimal
  perp_qty :: decimal
  perp_avg_price :: decimal
  perp_value :: decimal
  funding_earned :: decimal
  leverage :: int
  opened_at :: "datetime option"
  funding_periods :: int
  orders :: "order list"

definition notional_value :: "arbitrage_position \<Rightarrow> decimal" where
  "notional_value p = max \<bar>spot_value p\<bar> \<bar>perp_value p\<bar>"

text \<open>\<^verbatim>\<open>sum(o.fee or Decimal(0) for o in self.orders)\<close>\<close>

definition total_cost :: "arbitrage_position \<Rightarrow> decimal" where
  "total_cost p = sum_list (map (\<lambda>x. case fee x of None \<Rightarrow> 0 | Some f \<Rightarrow> f) (orders p))"

text \<open>\<^verbatim>\<open>src/strategy/selector.py\<close>: the \<^verbatim>\<open>Pool\<close> dataclass. A break-even count is an
  integer or \<^verbatim>\<open>float("inf")\<close>.\<close>

datatype periods = Periods int | Infinite

record pool =
  pool_symbol :: string
  funding_rate :: decimal
  predicted_rate :: decimal
  pool_price :: decimal
  volume_24h :: decimal
  depth_05pct :: decimal
  spread :: decimal
  expected_profit :: "decimal option"
  pool_breakeven_periods :: "periods option"
  score :: "decimal option"

text \<open>\<^verbatim>\<open>self.symbol.split("/")[0]\<close>: the text before the first slash.\<close>

definition pool_base_currency :: "pool \<Rightarrow> string" where
  "pool_base_currency p = takeWhile (\<lambda>c. c \<noteq> CHR ''/'') (pool_symbol p)"

section \<open>The exchange gateway\<close>

text \<open>
  The exchange is an external service. Its state is the list of requests it has received;
  what it answers to a request may depend on everything it has received before. A trading
  request either returns an order or raises.
\<close>

record perp_row =
  row_symbol :: string
  positionAmt :: decimal
  entryPrice :: decimal
  row_leverage :: int

record balance =
  free :: decimal
  total :: decimal

datatype gateway_call =
    SetLeverage string int
  | SpotOrder string OrderSide decimal OrderType
  | PerpOrder string OrderSide decimal OrderType bool
  | FetchPositions
  | FetchBalance

record exchange =
  calls :: "gateway_call list"
  leverage_reply :: "gateway_call list \<Rightarrow> string \<Rightarrow> int \<Rightarrow> py_error option"
  spot_reply :: "gateway_call list \<Rightarrow> string \<Rightarrow> OrderSide \<Rightarrow> decimal \<Rightarrow> OrderType \<Rightarrow> py_error + order"
  perp_reply :: "gateway_call list \<Rightarrow> string \<Rightarrow> OrderSide \<Rightarrow> decimal \<Rightarrow> OrderType \<Rightarrow> bool \<Rightarrow> py_error + order"
  positions_reply :: "gateway_call list \<Rightarrow> py_error + perp_row list"
  balance_reply :: "gateway_call list \<Rightarrow> py_error + (string \<times> balance) list"

definition set_leverage :: "exchange \<Rightarrow> string \<Rightarrow> int \<Rightarrow> py_error option \<times> exchange" where
  "set_leverage ex symb lev =
     (leverage_reply ex (calls ex) symb lev, ex\<lparr>calls := calls ex @ [SetLeverage symb lev]\<rparr>)"

definition place_spot_order ::
  "exchange \<Rightarrow> string \<Rightarrow> OrderSide \<Rightarrow> decimal \<Rightarrow> OrderType \<Rightarrow> (py_error + order) \<times> exchange" where
  "place_spot_order ex symb sd amt ty =
     (spot_reply ex (calls ex) symb sd amt ty, ex\<lparr>calls := calls ex @ [SpotOrder symb sd amt ty]\<rparr>)"

definition place_perp_order ::
  "exchange \<Rightarrow> string \<Rightarrow> OrderSide \<Rightarrow> decimal \<Rightarrow> OrderType \<Rightarrow> bool \<Rightarrow> (py_error + order) \<times> exchange" where
  "place_perp_order ex symb sd amt ty reduce_only =
     (perp_reply ex (calls ex) symb sd amt ty reduce_only,
      ex\<lparr>calls := calls ex @ [PerpOrder symb sd amt ty reduce_only]\<rparr>)"

definition fetch_positions :: "exchange \<Rightarrow> (py_error + perp_row list) \<times> exchange" where
  "fetch_positions ex = (positions_reply ex (calls ex), ex\<lparr>calls := calls ex @ [FetchPositions]\<rparr>)"

definition fetch_balance :: "exchange \<Rightarrow> (py_error + (string \<times> balance) list) \<times> exchange" where
  "fetch_balance ex = (balance_reply ex (calls ex), ex\<lparr>calls := calls ex @ [FetchBalance]\<rparr>)"

section \<open>The persisted position store\<close>

text \<open>
  \<^verbatim>\<open>src/core/position_store.py\<close>. The file \<^verbatim>\<open>data/positions.json\<close> holds one JSON object
  per symbol. A JSON string that is the text of a decimal number is represented by the
  number it denotes (\<open>JDecimalStr\<close>: Python guarantees \<^verbatim>\<open>Decimal(str(d)) == d\<close>), and
  one that is an ISO timestamp by the time it denotes (\<open>JIsoStr\<close>:
  \<^verbatim>\<open>datetime.fromisoformat(t.isoformat()) == t\<close>); \<open>JString\<close> is any other text.
  The file is taken to be readable and writable: the branches of \<^verbatim>\<open>_load_raw\<close> and
  \<^verbatim>\<open>_save_raw\<close> that swallow an I/O error are not modelled.
\<close>

datatype json = JNull | JInt int | JString string | JDecimalStr decimal | JIsoStr datetime

type_synonym json_object = "(string \<times> json) list"

type_synonym positions_raw = "(string \<times> json_object) list"

definition pos_dict :: "arbitrage_position \<Rightarrow> json_object" where
  "pos_dict position =
     [(''symbol'', JString (symbol position)),
      (''base_currency'', JString (base_currency position)),
      (''spot_qty'', JDecimalStr (spot_qty position)),
      (''spot_avg_price'', JDecimalStr (spot_avg_price position)),
      (''spot_value'', JDecimalStr (spot_value position)),
      (''perp_qty'', JDecimalStr (perp_qty position)),
      (''perp_avg_price'', JDecimalStr (perp_avg_price position)),
      (''perp_value'', JDecimalStr (perp_value position)),
      (''funding_earned'', JDecimalStr (funding_earned position)),
      (''leverage'', JInt (leverage position)),
      (''opened_at'', (case opened_at position of Some t \<Rightarrow> JIsoStr t | None \<Rightarrow> JNull)),
      (''funding_periods'', JInt (funding_periods position))]"

definition save :: "positions_raw \<Rightarrow> arbitrage_position \<Rightarrow> positions_raw" where
  "save positions position = AList.update (symbol position) (pos_dict position) positions"

definition remove :: "positions_raw \<Rightarrow> string \<Rightarrow> bool \<times> positions_raw" where
  "remove positions symb =
     (if symb \<in> fst ` set positions then (True, AList.delete symb positions)
      else (False, positions))"

text \<open>
  \<^verbatim>\<open>load_all\<close> builds each position inside \<^verbatim>\<open>try\<close>; an exception of any kind makes it
  log the row and go on, so reading a row yields a position or nothing. A field whose JSON
  type is not the one \<^verbatim>\<open>save\<close> writes counts as a failed row.
\<close>

definition str_item :: "json_object \<Rightarrow> string \<Rightarrow> string option" where
  "str_item data key = (case map_of data key of Some (JString s) \<Rightarrow> Some s | _ \<Rightarrow> None)"

definition decimal_item :: "json_object \<Rightarrow> string \<Rightarrow> decimal option" where
  "decimal_item data key =
     (case map_of data key of
        Some (JDecimalStr d) \<Rightarrow> Some d
      | Some (JInt n) \<Rightarrow> Some (of_int n)
      | _ \<Rightarrow> None)"

definition int_item :: "json_object \<Rightarrow> string \<Rightarrow> int option" where
  "int_item data key = (case map_of data key of Some (JInt n) \<Rightarrow> Some n | _ \<Rightarrow> None)"

text \<open>\<^verbatim>\<open>datetime.fromisoformat(data["opened_at"]) if data.get("opened_at") else None\<close>\<close>

definition opened_at_item :: "json_object \<Rightarrow> datetime option option" where
  "opened_at_item data =
     (case map_of data ''opened_at'' of
        None \<Rightarrow> Some None
      | Some JNull \<Rightarrow> Some None
      | Some (JIsoStr t) \<Rightarrow> Some (Some t)
      | Some (JString s) \<Rightarrow> (if s = [] then Some None else None)
      | Some (JInt n) \<Rightarrow> (if n = 0 then Some None else None)
      | Some (JDecimalStr d) \<Rightarrow> None)"

text \<open>\<^verbatim>\<open>data.get("funding_periods", 0)\<close>\<close>

definition funding_periods_item :: "json_object \<Rightarrow> int option" where
  "funding_periods_item data =
     (case map_of data ''funding_periods'' of
        None \<Rightarrow> Some 0
      | Some (JInt n) \<Rightarrow> Some n
      | _ \<Rightarrow> None)"

definition load_row :: "json_object \<Rightarrow> arbitrage_position option" where
  "load_row data = do {
     v_symbol \<leftarrow> str_item data ''symbol'';
     v_base \<leftarrow> str_item data ''base_currency'';
     v_spot_qty \<leftarrow> decimal_item data ''spot_qty'';
     v_spot_avg_price \<leftarrow> decimal_item data ''spot_avg_price'';
     v_spot_value \<leftarrow> decimal_item data ''spot_value'';
     v_perp_qty \<leftarrow> decimal_item data ''perp_qty'';
     v_perp_avg_price \<leftarrow> decimal_item data ''perp_avg_price'';
     v_perp_value \<leftarrow> decimal_item data ''perp_value'';
     v_funding_earned \<leftarrow> decimal_item data ''funding_earned'';
     v_leverage \<leftarrow> int_item data ''leverage'';
     v_opened_at \<leftarrow> opened_at_item data;
     v_funding_periods \<leftarrow> funding_periods_item data;
     Some \<lparr>symbol = v_symbol, base_currency = v_base,
            spot_qty = v_spot_qty, spot_avg_price = v_spot_avg_price, spot_value = v_spot_value,
            perp_qty = v_perp_qty, perp_avg_price = v_perp_avg_price, perp_value = v_perp_value,
            funding_earned = v_funding_earned, leverage = v_leverage,
            opened_at = v_opened_at, funding_periods = v_funding_periods, orders = []\<rparr>
   }"

definition load_step ::
  "(string \<times> arbitrage_position) list \<Rightarrow> string \<times> json_object \<Rightarrow> (string \<times> arbitrage_position) list" where
  "load_step positions row =
     (case load_row (snd row) of
        None \<Rightarrow> positions
      | Some p \<Rightarrow> AList.update (fst row) p positions)"

definition load_all :: "positions_raw \<Rightarrow> (string \<times> arbitrage_position) list" where
  "load_all raw = foldl load_step [] raw"

section \<open>The executor\<close>

text \<open>
  \<^verbatim>\<open>src/strategy/executor.py\<close>. The executor's \<^verbatim>\<open>positions\<close> dictionary, the exchange it
  talks to and the position file make up the state; a dictionary is an association list in
  insertion order.
\<close>

record config =
  default_leverage :: int
  allow_negative_rates :: bool
  delta_tolerance :: decimal
  telegram_enabled :: bool

record trader =
  exchange :: exchange
  positions :: "(string \<times> arbitrage_position) list"
  positions_file :: positions_raw

text \<open>The two opening requests of \<^verbatim>\<open>asyncio.gather(..., return_exceptions=True)\<close>: both are
  sent, and each outcome is an order or the exception.\<close>

definition open_legs ::
  "exchange \<Rightarrow> string \<Rightarrow> string \<Rightarrow> decimal \<Rightarrow> (py_error + order) \<times> (py_error + order) \<times> exchange" where
  "open_legs ex spot_symbol perp_symbol qty =
     (case place_spot_order ex spot_symbol BUY qty MARKET of (spot_order, ex1) \<Rightarrow>
      case place_perp_order ex1 perp_symbol SELL qty MARKET False of (perp_order, ex2) \<Rightarrow>
        (spot_order, perp_order, ex2))"

definition new_position :: "string \<Rightarrow> string \<Rightarrow> int \<Rightarrow> datetime \<Rightarrow> order \<Rightarrow> order \<Rightarrow> arbitrage_position" where
  "new_position perp_symbol base lev now spot_order perp_order =
     \<lparr>symbol = perp_symbol, base_currency = base,
      spot_qty = filled spot_order,
      spot_avg_price = price spot_order,
      spot_value = filled spot_order * price spot_order,
      perp_qty = - filled perp_order,
      perp_avg_price = price perp_order,
      perp_value = filled perp_order * price perp_order,
      funding_earned = 0, leverage = lev, opened_at = Some now, funding_periods = 0,
      orders = [spot_order, perp_order]\<rparr>"

text \<open>
  \<^verbatim>\<open>Executor.open_arbitrage\<close>. The quantity is computed before the \<^verbatim>\<open>try\<close>, so a zero
  price raises out of the function; every exception inside the \<^verbatim>\<open>try\<close> makes it return
  \<^verbatim>\<open>None\<close>. The result is \<open>Inl\<close> for a raised exception and \<open>Inr\<close> for the returned value.
\<close>

definition open_arbitrage ::
  "config \<Rightarrow> datetime \<Rightarrow> trader \<Rightarrow> pool \<Rightarrow> decimal \<Rightarrow> (py_error + arbitrage_position option) \<times> trader" where
  "open_arbitrage cfg now st pool size_usdt =
     (let base = pool_base_currency pool;
          spot_symbol = base @ ''/USDT'';
          perp_symbol = pool_symbol pool
      in if pool_price pool = 0
         then (Inl (if size_usdt = 0 then InvalidOperation else DivisionByZero), st)
         else
           let qty = size_usdt / pool_price pool;
               lev = default_leverage cfg
           in case set_leverage (exchange st) perp_symbol lev of
                (Some e, ex1) \<Rightarrow> (Inr None, st\<lparr>exchange := ex1\<rparr>)
              | (None, ex1) \<Rightarrow>
                  if \<not> funding_rate pool > 0 then (Inr None, st\<lparr>exchange := ex1\<rparr>)
                  else
                    (case open_legs ex1 spot_symbol perp_symbol qty of
                       (Inl spot_err, Inl perp_err, ex3) \<Rightarrow> (Inr None, st\<lparr>exchange := ex3\<rparr>)
                     | (Inl spot_err, Inr perp_order, ex3) \<Rightarrow>
                         (Inr None,
                          st\<lparr>exchange :=
                               snd (place_perp_order ex3 perp_symbol BUY (filled perp_order) MARKET False)\<rparr>)
                     | (Inr spot_order, Inl perp_err, ex3) \<Rightarrow>
                         (Inr None,
                          st\<lparr>exchange :=
                               snd (place_spot_order ex3 spot_symbol SELL (filled spot_order) MARKET)\<rparr>)
                     | (Inr spot_order, Inr perp_order, ex3) \<Rightarrow>
                         (let position = new_position perp_symbol base lev now spot_order perp_order
                          in (Inr (Some position),
                              st\<lparr>exchange := ex3,
                                 positions := AList.update perp_symbol position (positions st),
                                 positions_file := save (positions_file st) position\<rparr>))))"




text \<open>
  What a call of \<^verbatim>\<open>open_arbitrage\<close> sends to open the two legs, read off the same code
  path: nothing when the price is zero, when setting the leverage raises or when the rate
  is not positive; otherwise the outcome of both requests.
\<close>

definition opening_orders ::
  "config \<Rightarrow> trader \<Rightarrow> pool \<Rightarrow> decimal \<Rightarrow> ((py_error + order) \<times> (py_error + order) \<times> exchange) option" where
  "opening_orders cfg st pool size_usdt =
     (if pool_price pool = 0 then None
      else case set_leverage (exchange st) (pool_symbol pool) (default_leverage cfg) of
             (Some e, ex1) \<Rightarrow> None
           | (None, ex1) \<Rightarrow>
               if funding_rate pool > 0
               then Some (open_legs ex1 (pool_base_currency pool @ ''/USDT'') (pool_symbol pool)
                            (size_usdt / pool_price pool))
               else None)"

text \<open>Both opening orders, when both were placed and both succeeded.\<close>

definition filled_legs :: "config \<Rightarrow> trader \<Rightarrow> pool \<Rightarrow> decimal \<Rightarrow> (order \<times> order) option" where
  "filled_legs cfg st pool size_usdt =
     (case opening_orders cfg st pool size_usdt of
        Some (Inr spot_order, Inr perp_order, ex) \<Rightarrow> Some (spot_order, perp_order)
      | _ \<Rightarrow> None)"

text \<open>The compensating request after a single-leg failure: a market order that gives back
  the filled quantity of the leg that went through.\<close>

definition compensation :: "config \<Rightarrow> trader \<Rightarrow> pool \<Rightarrow> decimal \<Rightarrow> gateway_call list" where
  "compensation cfg st pool size_usdt =
     (case opening_orders cfg st pool size_usdt of
        Some (Inl e, Inr perp_order, ex) \<Rightarrow>
          [PerpOrder (pool_symbol pool) BUY (filled perp_order) MARKET False]
      | Some (Inr spot_order, Inl e, ex) \<Rightarrow>
          [SpotOrder (pool_base_currency pool @ ''/USDT'') SELL (filled spot_order) MARKET]
      | _ \<Rightarrow> [])"

section \<open>Profit helpers\<close>

text \<open>
  \<^verbatim>\<open>src/utils/helpers.py\<close>. \<^verbatim>\<open>float(x)\<close> of a decimal \<open>x\<close> is the IEEE 754 double nearest
  to \<open>x\<close>, ties to the even significand: 53 significant bits, the spacing of the
  subnormal range below \<open>2^-1022\<close>, and infinity from \<open>2^1024\<close> on.
\<close>

datatype pyfloat = Finite rat | PosInf | NegInf

definition pow2 :: "int \<Rightarrow> rat" where
  "pow2 e = (if 0 \<le> e then 2 ^ nat e else 1 / 2 ^ nat (- e))"

text \<open>The integer part of the binary logarithm of a positive rational: the bit lengths
  of numerator and denominator fix it up to one.\<close>

definition ilog2 :: "rat \<Rightarrow> int" where
  "ilog2 x =
     (case quotient_of x of (p, q) \<Rightarrow>
        let d = bitlen p - bitlen q
        in if pow2 d \<le> x then d else d - 1)"

definition round_half_even :: "rat \<Rightarrow> int" where
  "round_half_even x =
     (let f = \<lfloor>x\<rfloor>; r = x - of_int f
      in if r < 1 / 2 then f
         else if 1 / 2 < r then f + 1
         else if even f then f else f + 1)"

definition py_float :: "rat \<Rightarrow> pyfloat" where
  "py_float x =
     (if x = 0 then Finite 0
      else
        let a = \<bar>x\<bar>;
            e = max (ilog2 a) (- 1022);
            q = e - 52;
            y = of_int (round_half_even (a / pow2 q)) * pow2 q
        in if pow2 1024 \<le> y then (if 0 < x then PosInf else NegInf)
           else Finite (if 0 < x then y else - y))"

text \<open>\<^verbatim>\<open>math.ceil\<close> of a float: the ceiling, and \<^verbatim>\<open>OverflowError\<close> on an infinity.\<close>

fun math_ceil :: "pyfloat \<Rightarrow> py_error + int" where
  "math_ceil (Finite y) = Inr \<lceil>y\<rceil>"
| "math_ceil PosInf = Inl OverflowError"
| "math_ceil NegInf = Inl OverflowError"

text \<open>\<^verbatim>\<open>estimate_profit(...)["net_profit"]\<close>\<close>

definition estimate_net_profit :: "decimal \<Rightarrow> decimal \<Rightarrow> int \<Rightarrow> decimal \<Rightarrow> decimal \<Rightarrow> decimal" where
  "estimate_net_profit position_value rate n spot_fee perp_fee =
     (let funding_income = position_value * \<bar>rate\<bar> * of_int n;
          open_cost = position_value * (spot_fee + perp_fee);
          close_cost = position_value * (spot_fee + perp_fee)
      in funding_income - open_cost - close_cost)"

definition breakeven_periods :: "decimal \<Rightarrow> decimal \<Rightarrow> decimal \<Rightarrow> py_error + periods" where
  "breakeven_periods rate spot_fee perp_fee =
     (if \<bar>rate\<bar> = 0 then Inr Infinite
      else
        let total_fee = (spot_fee + perp_fee) * 2;
            n = total_fee / \<bar>rate\<bar>
        in case math_ceil (py_float n) of
             Inl e \<Rightarrow> Inl e
           | Inr k \<Rightarrow> Inr (Periods k))"

text \<open>The default fee arguments: 0.001 for spot and 0.0004 for the perpetual.\<close>

definition default_spot_fee :: decimal where
  "default_spot_fee = 1 / 1000"

definition default_perp_fee :: decimal where
  "default_perp_fee = 4 / 10000"

section \<open>The pool selector\<close>

text \<open>\<^verbatim>\<open>src/strategy/selector.py\<close>: the thresholds \<^verbatim>\<open>PoolSelector.__init__\<close> reads from the
  configuration.\<close>

record selector =
  min_volume :: decimal
  max_volume :: decimal
  min_depth :: decimal
  min_rate :: decimal
  max_spread :: decimal
  blacklist :: "string set"

text \<open>A decimal quotient: dividing by zero raises.\<close>

definition decimal_div :: "decimal \<Rightarrow> decimal \<Rightarrow> py_error + decimal" where
  "decimal_div a b =
     (if b = 0 then Inl (if a = 0 then InvalidOperation else DivisionByZero)
      else Inr (a / b))"

definition calc_metrics :: "selector \<Rightarrow> pool \<Rightarrow> py_error + pool" where
  "calc_metrics sel p =
     (let net = estimate_net_profit 1000 (funding_rate p) 3 default_spot_fee default_perp_fee
      in case breakeven_periods (funding_rate p) default_spot_fee default_perp_fee of
           Inl e \<Rightarrow> Inl e
         | Inr bp \<Rightarrow>
             let rate_score = \<bar>funding_rate p\<bar> * 1000
             in case decimal_div (depth_05pct p) (min_depth sel) of
                  Inl e \<Rightarrow> Inl e
                | Inr ratio \<Rightarrow>
                    let liquidity_score = min ratio 5 / 5
                    in case decimal_div (spread p) (max_spread sel) of
                         Inl e \<Rightarrow> Inl e
                       | Inr rel \<Rightarrow>
                           let spread_score = 1 - rel
                           in Inr (p\<lparr>expected_profit := Some net,
                                     pool_breakeven_periods := Some bp,
                                     score := Some (rate_score * liquidity_score * spread_score)\<rparr>))"

text \<open>The six checks of the loop body, each a \<^verbatim>\<open>continue\<close> when it fails.\<close>

definition passes :: "selector \<Rightarrow> config \<Rightarrow> pool \<Rightarrow> bool" where
  "passes sel cfg p =
     (if pool_base_currency p \<in> blacklist sel then False
      else if \<not> allow_negative_rates cfg \<and> funding_rate p < 0 then False
      else if \<not> (min_volume sel \<le> volume_24h p \<and> volume_24h p \<le> max_volume sel) then False
      else if depth_05pct p < min_depth sel then False
      else if \<bar>funding_rate p\<bar> < min_rate sel then False
      else if max_spread sel < spread p then False
      else True)"

fun candidates :: "selector \<Rightarrow> config \<Rightarrow> pool list \<Rightarrow> py_error + pool list" where
  "candidates sel cfg [] = Inr []"
| "candidates sel cfg (p # ps) =
     (if passes sel cfg p
      then (case calc_metrics sel p of
              Inl e \<Rightarrow> Inl e
            | Inr p' \<Rightarrow>
                (case candidates sel cfg ps of
                   Inl e \<Rightarrow> Inl e
                 | Inr rest \<Rightarrow> Inr (p' # rest)))
      else candidates sel cfg ps)"

text \<open>\<^verbatim>\<open>x.score or Decimal(0)\<close>\<close>

definition score_key :: "pool \<Rightarrow> decimal" where
  "score_key p = (case score p of None \<Rightarrow> 0 | Some s \<Rightarrow> s)"

text \<open>\<^verbatim>\<open>PoolSelector.filter\<close>: the stable sort by descending score is the stable insertion
  sort on the negated key.\<close>

definition filter_pools :: "selector \<Rightarrow> config \<Rightarrow> pool list \<Rightarrow> py_error + pool list" where
  "filter_pools sel cfg pools =
     (case candidates sel cfg pools of
        Inl e \<Rightarrow> Inl e
      | Inr cs \<Rightarrow> Inr (sort_key (\<lambda>p. - score_key p) cs))"

section \<open>The risk manager\<close>

text \<open>
  \<^verbatim>\<open>src/core/risk.py\<close>. The manager's thresholds, its per-symbol rate history and its loss
  counters are the state. The reason of a result is kept as a short label; the formatted
  numbers of the source's messages are left out.
\<close>

datatype RiskAction = HOLD | REDUCE | CLOSE | REBALANCE

record RiskCheckResult =
  action :: RiskAction
  reason :: string
  severity :: int

record risk_manager =
  margin_warning :: decimal
  margin_danger :: decimal
  margin_close :: decimal
  rate_reversal_periods :: int
  rate_reversal_threshold :: decimal
  rm_delta_tolerance :: decimal
  rate_history :: "(string \<times> decimal list) list"
  daily_loss :: decimal
  total_loss :: decimal

definition hold :: RiskCheckResult where
  "hold = \<lparr>action = HOLD, reason = [], severity = 0\<rparr>"

text \<open>\<^verbatim>\<open>ArbitragePosition.delta\<close>: \<^verbatim>\<open>self.spot_qty or self.perp_qty\<close> is the spot quantity
  unless that is zero.\<close>

definition delta :: "arbitrage_position \<Rightarrow> py_error + decimal" where
  "delta p =
     (if notional_value p = 0 then Inr 0
      else decimal_div (spot_qty p + perp_qty p)
             \<bar>if spot_qty p \<noteq> 0 then spot_qty p else perp_qty p\<bar>)"

definition check_margin_ratio :: "risk_manager \<Rightarrow> decimal \<Rightarrow> RiskCheckResult" where
  "check_margin_ratio rm margin_ratio =
     (if margin_ratio < margin_close rm
      then \<lparr>action = CLOSE, reason = ''margin ratio below close line'', severity = 10\<rparr>
      else if margin_ratio < margin_danger rm
      then \<lparr>action = REDUCE, reason = ''margin ratio below danger line'', severity = 8\<rparr>
      else hold)"

definition check_delta :: "risk_manager \<Rightarrow> arbitrage_position \<Rightarrow> py_error + RiskCheckResult" where
  "check_delta rm position =
     (case delta position of
        Inl e \<Rightarrow> Inl e
      | Inr d \<Rightarrow>
          if rm_delta_tolerance rm * 2 < \<bar>d\<bar>
          then Inr \<lparr>action = REBALANCE, reason = ''delta beyond threshold'', severity = 6\<rparr>
          else Inr hold)"

text \<open>
  \<^verbatim>\<open>_check_rate_reversal\<close>: the rate is appended to the symbol's history, the oldest
  entry is dropped once the history is longer than \<^verbatim>\<open>rate_reversal_periods + 1\<close>, and the
  first entry of what remains is taken as the initial rate. The reason of a \<^verbatim>\<open>CLOSE\<close>
  result is built from \<^verbatim>\<open>recent_rates[-1]\<close>, which raises \<^verbatim>\<open>IndexError\<close> when there is no
  later rate (a watch period of 0). The history is updated in place, so it is kept also
  when the function raises.
\<close>

definition updated_history :: "risk_manager \<Rightarrow> string \<Rightarrow> decimal \<Rightarrow> decimal list" where
  "updated_history rm symb rate =
     (let appended = (case map_of (rate_history rm) symb of None \<Rightarrow> [] | Some h \<Rightarrow> h) @ [rate]
      in if rate_reversal_periods rm + 1 < int (length appended) then tl appended else appended)"

definition check_rate_reversal ::
  "risk_manager \<Rightarrow> string \<Rightarrow> decimal \<Rightarrow> (py_error + RiskCheckResult) \<times> risk_manager" where
  "check_rate_reversal rm symb rate =
     (let history = updated_history rm symb rate;
          rm' = rm\<lparr>rate_history := AList.update symb history (rate_history rm)\<rparr>
      in if int (length history) < rate_reversal_periods rm + 1 then (Inr hold, rm')
         else case history of
                [] \<Rightarrow> (Inl IndexError, rm')
              | initial_rate # recent_rates \<Rightarrow>
                  if 0 < initial_rate
                  then (if list_all (\<lambda>r. r < - rate_reversal_threshold rm) recent_rates
                        then (if recent_rates = [] then (Inl IndexError, rm')
                              else (Inr \<lparr>action = CLOSE, reason = ''rate reversal'',
                                       severity = 7\<rparr>, rm'))
                        else (Inr hold, rm'))
                  else (if list_all (\<lambda>r. rate_reversal_threshold rm < r) recent_rates
                        then (if recent_rates = [] then (Inl IndexError, rm')
                              else (Inr \<lparr>action = CLOSE, reason = ''rate reversal'',
                                       severity = 7\<rparr>, rm'))
                        else (Inr hold, rm')))"

text \<open>\<^verbatim>\<open>_check_position_loss\<close> is a placeholder that always holds.\<close>

definition check_position_loss :: "risk_manager \<Rightarrow> arbitrage_position \<Rightarrow> RiskCheckResult" where
  "check_position_loss rm position = hold"

text \<open>\<^verbatim>\<open>RiskManager.check\<close>: the first result that is not \<^verbatim>\<open>HOLD\<close>, in the order margin, delta,
  rate reversal, position loss.\<close>

definition check ::
  "risk_manager \<Rightarrow> arbitrage_position \<Rightarrow> decimal option \<Rightarrow> decimal option
     \<Rightarrow> (py_error + RiskCheckResult) \<times> risk_manager" where
  "check rm position current_rate margin_ratio =
     (let margin = (case margin_ratio of None \<Rightarrow> hold | Some m \<Rightarrow> check_margin_ratio rm m)
      in if action margin \<noteq> HOLD then (Inr margin, rm)
         else case check_delta rm position of
                Inl e \<Rightarrow> (Inl e, rm)
              | Inr dres \<Rightarrow>
                  if action dres \<noteq> HOLD then (Inr dres, rm)
                  else
                    let reversal = (case current_rate of
                                      None \<Rightarrow> (Inr hold, rm)
                                    | Some r \<Rightarrow> check_rate_reversal rm (symbol position) r)
                    in case reversal of
                         (Inl e, rm') \<Rightarrow> (Inl e, rm')
                       | (Inr rres, rm') \<Rightarrow>
                           if action rres \<noteq> HOLD then (Inr rres, rm')
                           else if action (check_position_loss rm' position) \<noteq> HOLD
                           then (Inr (check_position_loss rm' position), rm')
                           else (Inr \<lparr>action = HOLD, reason = ''All checks passed'', severity = 0\<rparr>,
                                 rm'))"

text \<open>One \<^verbatim>\<open>check\<close> per observed rate, as the monitoring loop makes them, with the action
  of each.\<close>

fun check_each ::
  "risk_manager \<Rightarrow> arbitrage_position \<Rightarrow> decimal list \<Rightarrow> (py_error + RiskAction) list" where
  "check_each rm position [] = []"
| "check_each rm position (r # rs) =
     (case check rm position (Some r) None of
        (res, rm') \<Rightarrow> map_sum id action res # check_each rm' position rs)"

section \<open>The funding income ledger\<close>

text \<open>
  \<^verbatim>\<open>src/core/funding_tracker.py\<close>. Timestamps are kept in the ledger as ISO strings, so
  \<^verbatim>\<open>datetime.isoformat\<close> and \<^verbatim>\<open>datetime.fromisoformat\<close> are modelled on strings.
  \<^verbatim>\<open>fromisoformat\<close> reads \<^verbatim>\<open>YYYY-MM-DD\<close>, optionally followed by any one separator
  character and \<^verbatim>\<open>HH\<close>, \<^verbatim>\<open>HH:MM\<close>, \<^verbatim>\<open>HH:MM:SS\<close>, \<^verbatim>\<open>HH:MM:SS.fff\<close> or
  \<^verbatim>\<open>HH:MM:SS.ffffff\<close>; a string with a UTC offset is outside the model and counts as
  invalid. \<open>None\<close> stands for \<^verbatim>\<open>ValueError\<close>.
\<close>

definition digit_val :: "char \<Rightarrow> nat option" where
  "digit_val c =
     (let i = length (takeWhile (\<lambda>d. d \<noteq> c) ''0123456789'')
      in if i < 10 then Some i else None)"

fun digits_acc :: "nat \<Rightarrow> string \<Rightarrow> nat option" where
  "digits_acc n [] = Some n"
| "digits_acc n (c # cs) =
     (case digit_val c of None \<Rightarrow> None | Some d \<Rightarrow> digits_acc (10 * n + d) cs)"

definition parse_digits :: "string \<Rightarrow> nat option" where
  "parse_digits s = (if s = [] then None else digits_acc 0 s)"

text \<open>A number in decimal, padded with zeros to a fixed width.\<close>

fun pad :: "nat \<Rightarrow> nat \<Rightarrow> string" where
  "pad 0 n = []"
| "pad (Suc w) n = pad w (n div 10) @ [''0123456789'' ! (n mod 10)]"

definition is_leap :: "nat \<Rightarrow> bool" where
  "is_leap y = (y mod 4 = 0 \<and> (y mod 100 \<noteq> 0 \<or> y mod 400 = 0))"

definition days_in_month :: "nat \<Rightarrow> nat \<Rightarrow> nat" where
  "days_in_month y m =
     (if m = 2 then (if is_leap y then 29 else 28)
      else if m = 4 \<or> m = 6 \<or> m = 9 \<or> m = 11 then 30
      else 31)"

definition parse_date :: "string \<Rightarrow> (nat \<times> nat \<times> nat) option" where
  "parse_date s =
     (if length s \<noteq> 10 \<or> s ! 4 \<noteq> CHR ''-'' \<or> s ! 7 \<noteq> CHR ''-'' then None
      else do {
        y \<leftarrow> parse_digits (take 4 s);
        m \<leftarrow> parse_digits (take 2 (drop 5 s));
        d \<leftarrow> parse_digits (drop 8 s);
        if 1 \<le> y \<and> 1 \<le> m \<and> m \<le> 12 \<and> 1 \<le> d \<and> d \<le> days_in_month y m
        then Some (y, m, d) else None
      })"

definition parse_fraction :: "string \<Rightarrow> nat option" where
  "parse_fraction s =
     (if s = [] then Some 0
      else if hd s \<noteq> CHR ''.'' then None
      else if length s = 4 then map_option (\<lambda>n. n * 1000) (parse_digits (tl s))
      else if length s = 7 then parse_digits (tl s)
      else None)"

definition parse_time :: "string \<Rightarrow> (nat \<times> nat \<times> nat \<times> nat) option" where
  "parse_time s =
     (if length s < 2 then None
      else do {
        h \<leftarrow> parse_digits (take 2 s);
        mi \<leftarrow> (if length s = 2 then Some 0
               else if s ! 2 \<noteq> CHR '':'' \<or> length s < 5 then None
               else parse_digits (take 2 (drop 3 s)));
        sec \<leftarrow> (if length s \<le> 5 then Some 0
                else if s ! 5 \<noteq> CHR '':'' \<or> length s < 8 then None
                else parse_digits (take 2 (drop 6 s)));
        us \<leftarrow> parse_fraction (drop 8 s);
        if h < 24 \<and> mi < 60 \<and> sec < 60 then Some (h, mi, sec, us) else None
      })"

definition fromisoformat :: "string \<Rightarrow> datetime option" where
  "fromisoformat s =
     (case parse_date (take 10 s) of
        None \<Rightarrow> None
      | Some (y, m, d) \<Rightarrow>
          if length s = 10
          then Some \<lparr>year = y, month = m, day = d, hour = 0, minute = 0, second = 0,
                      microsecond = 0\<rparr>
          else (case parse_time (drop 11 s) of
                  None \<Rightarrow> None
                | Some (h, mi, sec, us) \<Rightarrow>
                    Some \<lparr>year = y, month = m, day = d, hour = h, minute = mi, second = sec,
                          microsecond = us\<rparr>))"

definition isoformat :: "datetime \<Rightarrow> string" where
  "isoformat t =
     pad 4 (year t) @ ''-'' @ pad 2 (month t) @ ''-'' @ pad 2 (day t) @ ''T'' @
     pad 2 (hour t) @ '':'' @ pad 2 (minute t) @ '':'' @ pad 2 (second t) @
     (if microsecond t = 0 then [] else ''.'' @ pad 6 (microsecond t))"

text \<open>
  The text \<^verbatim>\<open>str(d)\<close> of a decimal is represented by the sign, the coefficient and the
  exponent of \<open>d\<close>, which it determines and which determine it: two such texts are equal
  exactly when these are.
\<close>

record decimal_text =
  negative :: bool
  coefficient :: nat
  exponent :: int

text \<open>A row of \<^verbatim>\<open>data/funding_log.json\<close>, as \<^verbatim>\<open>FundingRecord.to_dict\<close> writes it.\<close>

record funding_row =
  fr_symbol :: "string option"
  fr_rate :: decimal_text
  fr_position_value :: decimal_text
  fr_income :: decimal_text
  fr_timestamp :: string

text \<open>A payment reported by the exchange. Its timestamp is a \<^verbatim>\<open>datetime\<close>, a string or
  something else; its amounts are the values of \<^verbatim>\<open>Decimal(str(p.get(key, 0)))\<close>.\<close>

datatype ts_value = TsDatetime datetime | TsString string | TsOther

record payment =
  pay_symbol :: "string option"
  pay_timestamp :: ts_value
  pay_income :: decimal_text
  pay_rate :: decimal_text
  pay_position_value :: decimal_text

type_synonym dedup_key = "string option \<times> string \<times> decimal_text"

definition row_key :: "funding_row \<Rightarrow> dedup_key" where
  "row_key r = (fr_symbol r, fr_timestamp r, fr_income r)"

text \<open>
  The loop of \<^verbatim>\<open>sync_remote_payments\<close> over the payments, with the key set, the records
  and the counter it updates. An unparsable timestamp string raises \<^verbatim>\<open>ValueError\<close> out
  of the function.
\<close>

fun sync_loop ::
  "dedup_key list \<Rightarrow> funding_row list \<Rightarrow> nat \<Rightarrow> payment list
     \<Rightarrow> py_error + funding_row list \<times> nat" where
  "sync_loop existing_keys records added [] = Inr (records, added)"
| "sync_loop existing_keys records added (p # ps) =
     (case (case pay_timestamp p of
              TsDatetime t \<Rightarrow> Some (isoformat t)
            | TsString s \<Rightarrow> Some s
            | TsOther \<Rightarrow> None) of
        None \<Rightarrow> sync_loop existing_keys records added ps
      | Some ts_iso \<Rightarrow>
          let key = (pay_symbol p, ts_iso, pay_income p)
          in if key \<in> set existing_keys then sync_loop existing_keys records added ps
             else case fromisoformat ts_iso of
                    None \<Rightarrow> Inl ValueError
                  | Some t \<Rightarrow>
                      sync_loop (key # existing_keys)
                        (records @
                           [\<lparr>fr_symbol = pay_symbol p, fr_rate = pay_rate p,
                             fr_position_value = pay_position_value p,
                             fr_income = pay_income p, fr_timestamp = isoformat t\<rparr>])
                        (added + 1) ps)"

text \<open>\<^verbatim>\<open>FundingTracker.sync_remote_payments\<close>: the ledger file is rewritten only when a
  record was added; the result is the number of added records, or the exception.\<close>

definition sync_remote_payments ::
  "funding_row list \<Rightarrow> payment list \<Rightarrow> (py_error + nat) \<times> funding_row list" where
  "sync_remote_payments ledger payments =
     (if payments = [] then (Inr 0, ledger)
      else case sync_loop (map row_key ledger) ledger 0 payments of
             Inl e \<Rightarrow> (Inl e, ledger)
           | Inr (records, added) \<Rightarrow> (Inr added, if added \<noteq> 0 then records else ledger))"

text \<open>The ISO string under which a payment is looked up, and the payments whose string
  is the one \<^verbatim>\<open>isoformat\<close> gives back after parsing: a \<^verbatim>\<open>datetime\<close>, or a string already
  in that form.\<close>

definition ts_iso_of :: "payment \<Rightarrow> string option" where
  "ts_iso_of p =
     (case pay_timestamp p of
        TsDatetime t \<Rightarrow> Some (isoformat t)
      | TsString s \<Rightarrow> Some s
      | TsOther \<Rightarrow> None)"

definition normalised :: "payment \<Rightarrow> bool" where
  "normalised p =
     (case ts_iso_of p of
        None \<Rightarrow> True
      | Some s \<Rightarrow> map_option isoformat (fromisoformat s) = Some s)"

section \<open>Reconciliation\<close>

text \<open>
  \<^verbatim>\<open>scripts/auto_trade.py\<close>. The rows of \<^verbatim>\<open>fetch_positions\<close> carry the symbol and, from the
  exchange's raw record, the signed amount, the entry price and the leverage; the spot
  balances map an asset to its free and total amounts. The amounts are the values of
  \<^verbatim>\<open>Decimal(str(...))\<close>.
\<close>



definition spot_total_of :: "(string \<times> balance) list \<Rightarrow> string \<Rightarrow> decimal" where
  "spot_total_of balances base = (case map_of balances base of None \<Rightarrow> 0 | Some b \<Rightarrow> total b)"

text \<open>A dictionary comprehension keyed by symbol: a later row with the same symbol
  replaces the earlier one.\<close>

definition by_symbol :: "perp_row list \<Rightarrow> (string \<times> perp_row) list" where
  "by_symbol rows = foldl (\<lambda>m p. AList.update (row_symbol p) p m) [] rows"





text \<open>
  The repair loop calls \<^verbatim>\<open>_get_position_store().delete(symbol)\<close>. The class
  \<^verbatim>\<open>PositionStore\<close> defines \<^verbatim>\<open>save\<close>, \<^verbatim>\<open>save_all\<close>, \<^verbatim>\<open>load_all\<close>, \<^verbatim>\<open>remove\<close>,
  \<^verbatim>\<open>update_funding_income\<close>, \<^verbatim>\<open>get_total_funding_income\<close> and three private helpers, and
  no \<^verbatim>\<open>delete\<close>: the attribute lookup raises \<^verbatim>\<open>AttributeError\<close> before anything is
  called.
\<close>

definition position_store_methods :: "string list" where
  "position_store_methods =
     [''_ensure_data_dir'', ''save'', ''save_all'', ''load_all'', ''remove'',
      ''update_funding_income'', ''get_total_funding_income'', ''_load_raw'', ''_save_raw'']"

definition position_store_delete :: "positions_raw \<Rightarrow> string \<Rightarrow> py_error + positions_raw" where
  "position_store_delete raw symb =
     (if ''delete'' \<in> set position_store_methods then Inr (snd (remove raw symb))
      else Inl AttributeError)"

text \<open>An inconsistency found by the verification: the symbol, and whether the perpetual
  and the spot leg were found. What the function emits: a warning in the log for each, and
  one message to Telegram when it is enabled.\<close>

type_synonym issue = "string \<times> bool \<times> bool"

datatype notice = LogWarning issue | TelegramAlert "issue list"

text \<open>The automatic repair of one inconsistent position, inside its own \<^verbatim>\<open>try\<close>: an
  exception of the order or of the deletion is logged and the loop goes on.\<close>

definition repair :: "trader \<Rightarrow> string \<Rightarrow> string \<Rightarrow> decimal \<Rightarrow> decimal \<Rightarrow> bool \<Rightarrow> bool \<Rightarrow> trader" where
  "repair st symb base perp_amt spot_total has_perp has_spot =
     (case (if has_perp \<and> \<not> has_spot
            then (case place_perp_order (exchange st) symb (if perp_amt < 0 then BUY else SELL)
                         \<bar>perp_amt\<bar> MARKET False of
                    (r, ex) \<Rightarrow> (map_sum id (\<lambda>x. ()) r, ex))
            else if has_spot \<and> \<not> has_perp
            then (case place_spot_order (exchange st) (base @ ''/USDT'') SELL spot_total MARKET of
                    (r, ex) \<Rightarrow> (map_sum id (\<lambda>x. ()) r, ex))
            else (Inr (), exchange st)) of
        (Inl e, ex) \<Rightarrow> st\<lparr>exchange := ex\<rparr>
      | (Inr u, ex) \<Rightarrow>
          (let st1 = st\<lparr>exchange := ex, positions := AList.delete symb (positions st)\<rparr>
           in case position_store_delete (positions_file st1) symb of
                Inl e \<Rightarrow> st1
              | Inr raw \<Rightarrow> st1\<lparr>positions_file := raw\<rparr>))"

fun fix_loop ::
  "(string \<times> perp_row) list \<Rightarrow> (string \<times> balance) list \<Rightarrow> trader
     \<Rightarrow> (string \<times> arbitrage_position) list \<Rightarrow> trader \<times> issue list" where
  "fix_loop perp_map balances st [] = (st, [])"
| "fix_loop perp_map balances st ((symb, pos) # rest) =
     (let base = base_currency pos;
          perp_amt = (case map_of perp_map symb of None \<Rightarrow> 0 | Some p \<Rightarrow> positionAmt p);
          has_perp = (1 / 1000 < \<bar>perp_amt\<bar>);
          spot_total = spot_total_of balances base;
          has_spot = (spot_qty pos * (9 / 10) \<le> spot_total)
      in if has_perp \<and> has_spot then fix_loop perp_map balances st rest
         else case fix_loop perp_map balances
                     (repair st symb base perp_amt spot_total has_perp has_spot) rest of
                (st', issues) \<Rightarrow> (st', (symb, has_perp, has_spot) # issues))"

text \<open>\<^verbatim>\<open>AutoTrader.verify_and_fix_positions\<close>: the loop runs over a copy of the tracked
  positions taken before the first repair.\<close>

definition verify_and_fix_positions :: "config \<Rightarrow> trader \<Rightarrow> trader \<times> notice list" where
  "verify_and_fix_positions cfg st =
     (if positions st = [] then (st, [])
      else case fetch_positions (exchange st) of
             (Inl e, ex1) \<Rightarrow> (st\<lparr>exchange := ex1\<rparr>, [])
           | (Inr perp_positions, ex1) \<Rightarrow>
               (case fetch_balance ex1 of
                  (Inl e, ex2) \<Rightarrow> (st\<lparr>exchange := ex2\<rparr>, [])
                | (Inr spot_balances, ex2) \<Rightarrow>
                    (case fix_loop (by_symbol perp_positions) spot_balances
                            (st\<lparr>exchange := ex2\<rparr>) (positions st) of
                       (st', issues_found) \<Rightarrow>
                         (st', map LogWarning issues_found @
                               (if issues_found \<noteq> [] \<and> telegram_enabled cfg
                                then [TelegramAlert issues_found] else [])))))"

section \<open>Concrete inputs\<close>

text \<open>Inputs at which the theorems below are instantiated.\<close>

definition t0 :: datetime where
  "t0 = \<lparr>year = 2024, month = 1, day = 1, hour = 8, minute = 0, second = 0, microsecond = 0\<rparr>"

definition fill :: "string \<Rightarrow> OrderSide \<Rightarrow> decimal \<Rightarrow> decimal \<Rightarrow> order" where
  "fill symb sd qty px =
     \<lparr>order_id = ''1'', order_symbol = symb, order_side = sd, order_type = MARKET,
      price = px, amount = qty, filled = qty, remaining = 0, status = ''closed'',
      timestamp = t0, fee = None, fee_currency = None\<rparr>"

text \<open>An exchange that fills every order at 50, and one whose perpetual market rejects
  every order.\<close>

definition filling_exchange :: exchange where
  "filling_exchange =
     \<lparr>calls = [],
      leverage_reply = (\<lambda>log symb lev. None),
      spot_reply = (\<lambda>log symb sd qty ty. Inr (fill symb sd qty 50)),
      perp_reply = (\<lambda>log symb sd qty ty ro. Inr (fill symb sd qty 50)),
      positions_reply = (\<lambda>log. Inr []),
      balance_reply = (\<lambda>log. Inr [])\<rparr>"


definition cfg0 :: config where
  "cfg0 = \<lparr>default_leverage = 2, allow_negative_rates = False, delta_tolerance = 2 / 100,
           telegram_enabled = True\<rparr>"

definition sol_position :: arbitrage_position where
  "sol_position =
     new_position ''SOL/USDT:USDT'' ''SOL'' 2 t0
       (fill ''SOL/USDT'' BUY 2 50) (fill ''SOL/USDT:USDT'' SELL 2 50)"

definition sol_pool :: pool where
  "sol_pool =
     \<lparr>pool_symbol = ''SOL/USDT:USDT'', funding_rate = 4 / 1000, predicted_rate = 4 / 1000,
      pool_price = 50, volume_24h = 1000000, depth_05pct = 20000, spread = 1 / 1000,
      expected_profit = None, pool_breakeven_periods = None, score = None\<rparr>"

definition negative_pool :: pool where
  "negative_pool = sol_pool\<lparr>funding_rate := - 1 / 1000, predicted_rate := - 1 / 1000\<rparr>"

definition empty_trader :: "exchange \<Rightarrow> trader" where
  "empty_trader ex = \<lparr>exchange = ex, positions = [], positions_file = []\<rparr>"

definition sol_trader :: "exchange \<Rightarrow> trader" where
  "sol_trader ex =
     \<lparr>exchange = ex, positions = [(''SOL/USDT:USDT'', sol_position)],
      positions_file = [(''SOL/USDT:USDT'', pos_dict sol_position)]\<rparr>"

text \<open>An exchange on which spot purchases fill at 50 while spot sales and every perpetual
  order are rejected: a compensating sale fails too.\<close>

definition one_way_exchange :: exchange where
  "one_way_exchange =
     \<lparr>calls = [],
      leverage_reply = (\<lambda>log symb lev. None),
      spot_reply = (\<lambda>log symb sd qty ty.
         if sd = BUY then Inr (fill symb sd qty 50) else Inl (GatewayError ''rejected'')),
      perp_reply = (\<lambda>log symb sd qty ty ro. Inl (GatewayError ''rejected'')),
      positions_reply = (\<lambda>log. Inr []),
      balance_reply = (\<lambda>log. Inr [])\<rparr>"

text \<open>A position whose two opening orders carry fees.\<close>

definition fee_position :: arbitrage_position where
  "fee_position =
     new_position ''SOL/USDT:USDT'' ''SOL'' 2 t0
       ((fill ''SOL/USDT'' BUY 2 50)\<lparr>fee := Some (1 / 10)\<rparr>)
       ((fill ''SOL/USDT:USDT'' SELL 2 50)\<lparr>fee := Some (4 / 100)\<rparr>)"

text \<open>The selector of the first scenario, and a pool with rate 0.006, depth 20000 and
  spread 0.001.\<close>

definition sel0 :: selector where
  "sel0 = \<lparr>min_volume = 500000, max_volume = 5000000, min_depth = 10000,
            min_rate = 3 / 10000, max_spread = 5 / 1000, blacklist = {''LUNA''}\<rparr>"

definition scenario_pool :: pool where
  "scenario_pool =
     \<lparr>pool_symbol = ''SOL/USDT:USDT'', funding_rate = 6 / 1000, predicted_rate = 6 / 1000,
      pool_price = 50, volume_24h = 1000000, depth_05pct = 20000, spread = 1 / 1000,
      expected_profit = None, pool_breakeven_periods = None, score = None\<rparr>"

text \<open>A rate just below the round-trip fee rate 0.0028: 0.0027999999999999999.\<close>

definition near_fee_rate :: decimal where
  "near_fee_rate = 27999999999999999 / 10 ^ 19"

text \<open>The risk manager with the default thresholds: two watch periods and a reversal
  threshold of 0.0001.\<close>

definition rm0 :: risk_manager where
  "rm0 = \<lparr>margin_warning = 5 / 10, margin_danger = 35 / 100, margin_close = 25 / 100,
          rate_reversal_periods = 2, rate_reversal_threshold = 1 / 10000,
          rm_delta_tolerance = 2 / 100, rate_history = [], daily_loss = 0, total_loss = 0\<rparr>"

text \<open>A funding payment of 0.5 whose timestamp is the ISO string
  \<^verbatim>\<open>2024-01-01 08:00:00\<close>, written with a blank between date and time.\<close>

definition half :: decimal_text where
  "half = \<lparr>negative = False, coefficient = 5, exponent = - 1\<rparr>"

definition zero_text :: decimal_text where
  "zero_text = \<lparr>negative = False, coefficient = 0, exponent = 0\<rparr>"

definition blank_payment :: payment where
  "blank_payment =
     \<lparr>pay_symbol = Some ''SOL/USDT:USDT'', pay_timestamp = TsString ''2024-01-01 08:00:00'',
      pay_income = half, pay_rate = zero_text, pay_position_value = zero_text\<rparr>"

definition blank_row :: funding_row where
  "blank_row =
     \<lparr>fr_symbol = Some ''SOL/USDT:USDT'', fr_rate = zero_text, fr_position_value = zero_text,
      fr_income = half, fr_timestamp = ''2024-01-01T08:00:00''\<rparr>"



text \<open>An exchange on which the perpetual leg of the tracked position is still open (short
  2) and no spot is left.\<close>

definition spot_gone_exchange :: exchange where
  "spot_gone_exchange =
     filling_exchange\<lparr>positions_reply :=
                        (\<lambda>log. Inr [\<lparr>row_symbol = ''SOL/USDT:USDT'', positionAmt = - 2,
                                     entryPrice = 50, row_leverage = 2\<rparr>]),
                      balance_reply := (\<lambda>log. Inr [])\<rparr>"

section \<open>Opening and closing positions\<close>




text \<open>What a call of \<^verbatim>\<open>open_arbitrage\<close> returns, stores and sends, in terms of the two
  opening orders.\<close>

lemma open_arbitrage_outcome:
  assumes run: "open_arbitrage cfg now st pool size_usdt = (res, st')"
  shows "positions st' =
           (case filled_legs cfg st pool size_usdt of
              Some (spot_order, perp_order) \<Rightarrow>
                AList.update (pool_symbol pool)
                  (new_position (pool_symbol pool) (pool_base_currency pool) (default_leverage cfg) now
                     spot_order perp_order) (positions st)
            | None \<Rightarrow> positions st)"
    and "positions_file st' =
           (case filled_legs cfg st pool size_usdt of
              Some (spot_order, perp_order) \<Rightarrow>
                save (positions_file st)
                  (new_position (pool_symbol pool) (pool_base_currency pool) (default_leverage cfg) now
                     spot_order perp_order)
            | None \<Rightarrow> positions_file st)"
    and "res =
           (if pool_price pool = 0
            then Inl (if size_usdt = 0 then InvalidOperation else DivisionByZero)
            else Inr (case filled_legs cfg st pool size_usdt of
                        Some (spot_order, perp_order) \<Rightarrow>
                          Some (new_position (pool_symbol pool) (pool_base_currency pool)
                                  (default_leverage cfg) now spot_order perp_order)
                      | None \<Rightarrow> None))"
    and "calls (exchange st') =
           calls (exchange st) @
           (if pool_price pool = 0 then []
            else SetLeverage (pool_symbol pool) (default_leverage cfg) #
              (case opening_orders cfg st pool size_usdt of
                 None \<Rightarrow> []
               | Some legs \<Rightarrow>
                   [SpotOrder (pool_base_currency pool @ ''/USDT'') BUY (size_usdt / pool_price pool) MARKET,
                    PerpOrder (pool_symbol pool) SELL (size_usdt / pool_price pool) MARKET False]
                   @ compensation cfg st pool size_usdt))"
  using run
  by (auto simp: open_arbitrage_def opening_orders_def filled_legs_def compensation_def Let_def
        place_perp_order_def place_spot_order_def set_leverage_def open_legs_def
      split: if_splits prod.splits option.splits sum.splits)

text \<open>
  Claim C1. After any call of \<^verbatim>\<open>open_arbitrage\<close>: when both opening orders succeeded, the
  executor's position map holds under the pool's symbol a position that records both legs
  (the filled quantity and price of the spot order, the negated filled quantity and the
  price of the perpetual order, and both orders in its order list), that position is
  returned, and the position file holds its row under the same symbol; in every other case
  the map and the file are left as they were and no position is returned, so nothing is
  recorded for a single filled leg. A symbol that was not tracked before is tracked
  afterwards if and only if both orders succeeded. When exactly one leg failed, the
  requests sent end with a market order giving back the filled quantity of the other leg,
  whatever the exchange answers to it.
\<close>

theorem open_arbitrage_matched_or_empty:
  assumes run: "open_arbitrage cfg now st pool size_usdt = (res, st')"
  shows "(case filled_legs cfg st pool size_usdt of
            Some (spot_order, perp_order) \<Rightarrow>
              (\<exists>q. res = Inr (Some q)
                 \<and> map_of (positions st') (pool_symbol pool) = Some q
                 \<and> symbol q = pool_symbol pool
                 \<and> base_currency q = pool_base_currency pool
                 \<and> spot_qty q = filled spot_order
                 \<and> spot_avg_price q = price spot_order
                 \<and> spot_value q = filled spot_order * price spot_order
                 \<and> perp_qty q = - filled perp_order
                 \<and> perp_avg_price q = price perp_order
                 \<and> perp_value q = filled perp_order * price perp_order
                 \<and> leverage q = default_leverage cfg
                 \<and> orders q = [spot_order, perp_order]
                 \<and> map_of (positions_file st') (pool_symbol pool) = Some (pos_dict q)
                 \<and> map_of (pos_dict q) ''spot_qty'' = Some (JDecimalStr (filled spot_order))
                 \<and> map_of (pos_dict q) ''perp_qty'' = Some (JDecimalStr (- filled perp_order)))
          | None \<Rightarrow>
              positions st' = positions st \<and> positions_file st' = positions_file st
              \<and> res \<in> {Inr None, Inl InvalidOperation, Inl DivisionByZero})
       \<and> (map_of (positions st') (pool_symbol pool) \<noteq> None)
           = (filled_legs cfg st pool size_usdt \<noteq> None \<or> map_of (positions st) (pool_symbol pool) \<noteq> None)
       \<and> positions st' =
           (case filled_legs cfg st pool size_usdt of
              Some (spot_order, perp_order) \<Rightarrow>
                AList.update (pool_symbol pool)
                  (new_position (pool_symbol pool) (pool_base_currency pool) (default_leverage cfg) now
                     spot_order perp_order) (positions st)
            | None \<Rightarrow> positions st)
       \<and> positions_file st' =
           (case filled_legs cfg st pool size_usdt of
              Some (spot_order, perp_order) \<Rightarrow>
                save (positions_file st)
                  (new_position (pool_symbol pool) (pool_base_currency pool) (default_leverage cfg) now
                     spot_order perp_order)
            | None \<Rightarrow> positions_file st)
       \<and> (\<exists>p. res = Inr (Some p)) = (filled_legs cfg st pool size_usdt \<noteq> None)
       \<and> calls (exchange st') =
           calls (exchange st) @
           (if pool_price pool = 0 then []
            else SetLeverage (pool_symbol pool) (default_leverage cfg) #
              (case opening_orders cfg st pool size_usdt of
                 None \<Rightarrow> []
               | Some legs \<Rightarrow>
                   [SpotOrder (pool_base_currency pool @ ''/USDT'') BUY (size_usdt / pool_price pool) MARKET,
                    PerpOrder (pool_symbol pool) SELL (size_usdt / pool_price pool) MARKET False]
                   @ compensation cfg st pool size_usdt))"
proof -
  note out = open_arbitrage_outcome [OF run]
  have price: "filled_legs cfg st pool size_usdt \<noteq> None \<Longrightarrow> pool_price pool \<noteq> 0"
    by (auto simp: filled_legs_def opening_orders_def)
  have recorded: "(case filled_legs cfg st pool size_usdt of
            Some (spot_order, perp_order) \<Rightarrow>
              (\<exists>q. res = Inr (Some q)
                 \<and> map_of (positions st') (pool_symbol pool) = Some q
                 \<and> symbol q = pool_symbol pool
                 \<and> base_currency q = pool_base_currency pool
                 \<and> spot_qty q = filled spot_order
                 \<and> spot_avg_price q = price spot_order
                 \<and> spot_value q = filled spot_order * price spot_order
                 \<and> perp_qty q = - filled perp_order
                 \<and> perp_avg_price q = price perp_order
                 \<and> perp_value q = filled perp_order * price perp_order
                 \<and> leverage q = default_leverage cfg
                 \<and> orders q = [spot_order, perp_order]
                 \<and> map_of (positions_file st') (pool_symbol pool) = Some (pos_dict q)
                 \<and> map_of (pos_dict q) ''spot_qty'' = Some (JDecimalStr (filled spot_order))
                 \<and> map_of (pos_dict q) ''perp_qty'' = Some (JDecimalStr (- filled perp_order)))
          | None \<Rightarrow>
              positions st' = positions st \<and> positions_file st' = positions_file st
              \<and> res \<in> {Inr None, Inl InvalidOperation, Inl DivisionByZero})"
  proof (cases "filled_legs cfg st pool size_usdt")
    case None
    with out show ?thesis by simp
  next
    case (Some legs)
    obtain so po where legs: "legs = (so, po)" by (cases legs)
    with Some price have px: "pool_price pool \<noteq> 0" by simp
    show ?thesis
      using out(1,2,3) Some legs px
      by (simp add: update_conv' save_def new_position_def pos_dict_def)
  qed
  have tracked: "(map_of (positions st') (pool_symbol pool) \<noteq> None)
           = (filled_legs cfg st pool size_usdt \<noteq> None \<or> map_of (positions st) (pool_symbol pool) \<noteq> None)"
    using out(1) by (auto simp: update_conv' split: option.splits)
  have returned: "(\<exists>p. res = Inr (Some p)) = (filled_legs cfg st pool size_usdt \<noteq> None)"
    using out(3) price by (auto split: option.splits)
  from recorded tracked out(1) out(2) returned out(4) show ?thesis
    by (intro conjI)
qed

theorem open_arbitrage_matched_or_empty_witness:
  "(filled_legs cfg0 (empty_trader one_way_exchange) sol_pool 100 = None
    \<and> map_of (positions (snd (open_arbitrage cfg0 t0 (empty_trader one_way_exchange) sol_pool 100)))
         ''SOL/USDT:USDT'' = None
    \<and> calls (exchange (snd (open_arbitrage cfg0 t0 (empty_trader one_way_exchange) sol_pool 100)))
         = [SetLeverage ''SOL/USDT:USDT'' 2,
            SpotOrder ''SOL/USDT'' BUY 2 MARKET,
            PerpOrder ''SOL/USDT:USDT'' SELL 2 MARKET False,
            SpotOrder ''SOL/USDT'' SELL 2 MARKET])
   \<and> (filled_legs cfg0 (empty_trader filling_exchange) sol_pool 100
         = Some (fill ''SOL/USDT'' BUY 2 50, fill ''SOL/USDT:USDT'' SELL 2 50)
      \<and> (\<exists>q. fst (open_arbitrage cfg0 t0 (empty_trader filling_exchange) sol_pool 100) = Inr (Some q)
            \<and> map_of (positions (snd (open_arbitrage cfg0 t0 (empty_trader filling_exchange) sol_pool 100)))
                 ''SOL/USDT:USDT'' = Some q
            \<and> spot_qty q = 2 \<and> perp_qty q = - 2
            \<and> orders q = [fill ''SOL/USDT'' BUY 2 50, fill ''SOL/USDT:USDT'' SELL 2 50]
            \<and> map_of (positions_file (snd (open_arbitrage cfg0 t0 (empty_trader filling_exchange) sol_pool 100)))
                 ''SOL/USDT:USDT'' = Some (pos_dict q)))"
proof -
  have sym: "pool_symbol sol_pool = ''SOL/USDT:USDT''"
    by (simp add: sol_pool_def)
  have failure: "filled_legs cfg0 (empty_trader one_way_exchange) sol_pool 100 = None
    \<and> map_of (positions (snd (open_arbitrage cfg0 t0 (empty_trader one_way_exchange) sol_pool 100)))
         ''SOL/USDT:USDT'' = None
    \<and> calls (exchange (snd (open_arbitrage cfg0 t0 (empty_trader one_way_exchange) sol_pool 100)))
         = [SetLeverage ''SOL/USDT:USDT'' 2,
            SpotOrder ''SOL/USDT'' BUY 2 MARKET,
            PerpOrder ''SOL/USDT:USDT'' SELL 2 MARKET False,
            SpotOrder ''SOL/USDT'' SELL 2 MARKET]"
  proof -
    obtain res st' where
      run: "open_arbitrage cfg0 t0 (empty_trader one_way_exchange) sol_pool 100 = (res, st')"
      by force
    have legs: "opening_orders cfg0 (empty_trader one_way_exchange) sol_pool 100
        = Some (Inr (fill ''SOL/USDT'' BUY 2 50), Inl (GatewayError ''rejected''),
                one_way_exchange\<lparr>calls := [SetLeverage ''SOL/USDT:USDT'' 2,
                   SpotOrder ''SOL/USDT'' BUY 2 MARKET,
                   PerpOrder ''SOL/USDT:USDT'' SELL 2 MARKET False]\<rparr>)"
      by (simp add: opening_orders_def pool_base_currency_def Let_def set_leverage_def open_legs_def
            place_spot_order_def place_perp_order_def cfg0_def empty_trader_def one_way_exchange_def
            sol_pool_def)
    have none: "filled_legs cfg0 (empty_trader one_way_exchange) sol_pool 100 = None"
      by (simp add: filled_legs_def legs)
    have comp: "compensation cfg0 (empty_trader one_way_exchange) sol_pool 100
        = [SpotOrder ''SOL/USDT'' SELL 2 MARKET]"
      by (simp add: compensation_def legs) (simp add: pool_base_currency_def sol_pool_def fill_def)
    have untracked: "map_of (positions (empty_trader one_way_exchange)) (pool_symbol sol_pool) = None"
      by (simp add: empty_trader_def)
    note facts = open_arbitrage_matched_or_empty [OF run]
    have a: "map_of (positions st') (pool_symbol sol_pool) = None"
      using facts [THEN conjunct2, THEN conjunct1] none untracked by simp
    have b: "calls (exchange st') = [SetLeverage ''SOL/USDT:USDT'' 2,
             SpotOrder ''SOL/USDT'' BUY 2 MARKET,
             PerpOrder ''SOL/USDT:USDT'' SELL 2 MARKET False,
             SpotOrder ''SOL/USDT'' SELL 2 MARKET]"
      using facts [THEN conjunct2, THEN conjunct2, THEN conjunct2, THEN conjunct2, THEN conjunct2]
      by (simp add: legs comp)
         (simp add: sol_pool_def cfg0_def empty_trader_def one_way_exchange_def pool_base_currency_def)
    from a have a': "map_of (positions st') ''SOL/USDT:USDT'' = None" by (simp only: sym)
    from a' b none show ?thesis by (simp add: run)
  qed
  have success: "filled_legs cfg0 (empty_trader filling_exchange) sol_pool 100
         = Some (fill ''SOL/USDT'' BUY 2 50, fill ''SOL/USDT:USDT'' SELL 2 50)
      \<and> (\<exists>q. fst (open_arbitrage cfg0 t0 (empty_trader filling_exchange) sol_pool 100) = Inr (Some q)
            \<and> map_of (positions (snd (open_arbitrage cfg0 t0 (empty_trader filling_exchange) sol_pool 100)))
                 ''SOL/USDT:USDT'' = Some q
            \<and> spot_qty q = 2 \<and> perp_qty q = - 2
            \<and> orders q = [fill ''SOL/USDT'' BUY 2 50, fill ''SOL/USDT:USDT'' SELL 2 50]
            \<and> map_of (positions_file (snd (open_arbitrage cfg0 t0 (empty_trader filling_exchange) sol_pool 100)))
                 ''SOL/USDT:USDT'' = Some (pos_dict q))"
  proof -
    obtain res st' where
      run: "open_arbitrage cfg0 t0 (empty_trader filling_exchange) sol_pool 100 = (res, st')"
      by force
    have legs: "opening_orders cfg0 (empty_trader filling_exchange) sol_pool 100
        = Some (Inr (fill ''SOL/USDT'' BUY 2 50), Inr (fill ''SOL/USDT:USDT'' SELL 2 50),
                filling_exchange\<lparr>calls := [SetLeverage ''SOL/USDT:USDT'' 2,
                   SpotOrder ''SOL/USDT'' BUY 2 MARKET,
                   PerpOrder ''SOL/USDT:USDT'' SELL 2 MARKET False]\<rparr>)"
      by (simp add: opening_orders_def pool_base_currency_def Let_def set_leverage_def open_legs_def
            place_spot_order_def place_perp_order_def cfg0_def empty_trader_def filling_exchange_def
            sol_pool_def)
    have both: "filled_legs cfg0 (empty_trader filling_exchange) sol_pool 100
         = Some (fill ''SOL/USDT'' BUY 2 50, fill ''SOL/USDT:USDT'' SELL 2 50)"
      by (simp add: filled_legs_def legs)
    have qty: "filled (fill ''SOL/USDT'' BUY 2 50) = 2" "filled (fill ''SOL/USDT:USDT'' SELL 2 50) = 2"
      by (simp_all add: fill_def)
    from open_arbitrage_matched_or_empty [OF run, THEN conjunct1]
    obtain q where q: "res = Inr (Some q)"
        "map_of (positions st') (pool_symbol sol_pool) = Some q"
        "spot_qty q = filled (fill ''SOL/USDT'' BUY 2 50)"
        "perp_qty q = - filled (fill ''SOL/USDT:USDT'' SELL 2 50)"
        "orders q = [fill ''SOL/USDT'' BUY 2 50, fill ''SOL/USDT:USDT'' SELL 2 50]"
        "map_of (positions_file st') (pool_symbol sol_pool) = Some (pos_dict q)"
      unfolding both option.case prod.case by blast
    from q have "fst (open_arbitrage cfg0 t0 (empty_trader filling_exchange) sol_pool 100) = Inr (Some q)
            \<and> map_of (positions (snd (open_arbitrage cfg0 t0 (empty_trader filling_exchange) sol_pool 100)))
                 ''SOL/USDT:USDT'' = Some q
            \<and> spot_qty q = 2 \<and> perp_qty q = - 2
            \<and> orders q = [fill ''SOL/USDT'' BUY 2 50, fill ''SOL/USDT:USDT'' SELL 2 50]
            \<and> map_of (positions_file (snd (open_arbitrage cfg0 t0 (empty_trader filling_exchange) sol_pool 100)))
                 ''SOL/USDT:USDT'' = Some (pos_dict q)"
      unfolding run sym qty by simp
    with both show ?thesis by blast
  qed
  from failure success show ?thesis by (rule conjI)
qed

section \<open>Rejection of a non-positive funding rate\<close>

text \<open>
  Claim C8, as stated, fails: \<^verbatim>\<open>open_arbitrage\<close> sends \<^verbatim>\<open>set_leverage\<close> to the exchange
  before it looks at the sign of the rate. For the pool below, with rate -0.001, the
  exchange has received a leverage request when the call returns.
\<close>

theorem open_arbitrage_negative_rate_sets_leverage:
  "funding_rate negative_pool \<le> 0
   \<and> calls (exchange (empty_trader filling_exchange)) = []
   \<and> calls (exchange (snd (open_arbitrage cfg0 t0 (empty_trader filling_exchange) negative_pool 100)))
        = [SetLeverage ''SOL/USDT:USDT'' 2]"
  by (simp add: open_arbitrage_def Let_def set_leverage_def negative_pool_def sol_pool_def
        empty_trader_def filling_exchange_def cfg0_def)

text \<open>
  Claim C8, amended. For every pool whose funding rate is not positive and whose price is
  not zero, \<^verbatim>\<open>open_arbitrage\<close> returns \<^verbatim>\<open>None\<close>, sends no spot and no perpetual order and
  leaves the position map and the position file as they were; the one request it sends is
  \<^verbatim>\<open>set_leverage\<close> for the pool's symbol with the default leverage. With a zero price the
  quantity cannot be computed and the call raises before anything is sent.
\<close>

theorem open_arbitrage_rejects_nonpositive_rate:
  assumes "funding_rate pool \<le> 0"
  shows "open_arbitrage cfg now st pool size_usdt =
           (if pool_price pool = 0
            then (Inl (if size_usdt = 0 then InvalidOperation else DivisionByZero), st)
            else (Inr None,
                  st\<lparr>exchange := (exchange st)\<lparr>calls := calls (exchange st) @
                        [SetLeverage (pool_symbol pool) (default_leverage cfg)]\<rparr>\<rparr>))"
  using assms
  by (auto simp: open_arbitrage_def Let_def set_leverage_def split: prod.splits option.splits)

theorem open_arbitrage_rejects_nonpositive_rate_witness:
  "funding_rate negative_pool \<le> 0
   \<and> fst (open_arbitrage cfg0 t0 (sol_trader filling_exchange) negative_pool 100) = Inr None
   \<and> positions (snd (open_arbitrage cfg0 t0 (sol_trader filling_exchange) negative_pool 100))
        = positions (sol_trader filling_exchange)
   \<and> positions_file (snd (open_arbitrage cfg0 t0 (sol_trader filling_exchange) negative_pool 100))
        = positions_file (sol_trader filling_exchange)"
proof -
  have neg: "funding_rate negative_pool \<le> 0"
    by (simp add: negative_pool_def sol_pool_def)
  have px: "pool_price negative_pool \<noteq> 0"
    by (simp add: negative_pool_def sol_pool_def)
  show ?thesis
    using neg px
    by (simp add: open_arbitrage_rejects_nonpositive_rate [OF neg])
qed

section \<open>Saving and reloading a position\<close>

lemma load_row_pos_dict: "load_row (pos_dict p) = Some (p\<lparr>orders := []\<rparr>)"
  by (cases "opened_at p")
     (simp_all add: load_row_def pos_dict_def str_item_def decimal_item_def int_item_def
        opened_at_item_def funding_periods_item_def)

lemma map_of_load_rows:
  "distinct (map fst raw) \<Longrightarrow>
   map_of (foldl load_step acc raw) k =
     (case map_of raw k of
        None \<Rightarrow> map_of acc k
      | Some data \<Rightarrow> (case load_row data of None \<Rightarrow> map_of acc k | Some p \<Rightarrow> Some p))"
proof (induction raw arbitrary: acc)
  case Nil
  then show ?case by simp
next
  case (Cons row raw)
  obtain s d where row: "row = (s, d)" by (cases row)
  from Cons.prems row have fresh: "s \<notin> fst ` set raw" and dist: "distinct (map fst raw)"
    by auto
  from fresh have none: "map_of raw s = None"
    by (simp add: map_of_eq_None_iff)
  show ?case
    using Cons.IH [OF dist] none row
    by (auto simp: load_step_def update_conv' split: option.splits)
qed

text \<open>
  Claim C10. Saving a position into a position file (a JSON object, so its keys are
  distinct) and loading the file yields, under the position's symbol, a position with the
  same symbol, base currency, quantities, average prices, values, funding earned,
  leverage, opening time and settlement count, and with an empty order list; its total
  cost is therefore 0, whatever fees the saved position's orders carried.
\<close>

theorem save_then_load_all_drops_orders:
  assumes "distinct (map fst raw)"
  shows "\<exists>q. map_of (load_all (save raw p)) (symbol p) = Some q
           \<and> q = p\<lparr>orders := []\<rparr> \<and> total_cost q = 0"
proof -
  have "distinct (map fst (save raw p))"
    using assms by (simp add: save_def distinct_update)
  then have "map_of (load_all (save raw p)) (symbol p) = Some (p\<lparr>orders := []\<rparr>)"
    by (simp add: load_all_def map_of_load_rows save_def update_conv' load_row_pos_dict)
  then show ?thesis by (simp add: total_cost_def)
qed

theorem save_then_load_all_drops_orders_witness:
  "distinct (map fst ([] :: positions_raw))
   \<and> total_cost fee_position = 14 / 100
   \<and> (\<exists>q. map_of (load_all (save [] fee_position)) ''SOL/USDT:USDT'' = Some q
          \<and> q = fee_position\<lparr>orders := []\<rparr> \<and> total_cost q = 0)"
proof -
  have d: "distinct (map fst ([] :: positions_raw))" by simp
  have c: "total_cost fee_position = 14 / 100"
    by (simp add: total_cost_def fee_position_def new_position_def fill_def)
  have s: "symbol fee_position = ''SOL/USDT:USDT''"
    by (simp add: fee_position_def new_position_def)
  from save_then_load_all_drops_orders [OF d, of fee_position] c d show ?thesis
    by (simp only: s)
qed

section \<open>Pools that pass the filter\<close>

lemma calc_metrics_fields:
  assumes "calc_metrics sel p = Inr p'"
  shows "pool_symbol p' = pool_symbol p \<and> funding_rate p' = funding_rate p
       \<and> volume_24h p' = volume_24h p \<and> depth_05pct p' = depth_05pct p
       \<and> spread p' = spread p"
  using assms
  by (auto simp: calc_metrics_def Let_def split: sum.splits)

lemma calc_metrics_passes:
  assumes "calc_metrics sel p = Inr p'"
  shows "passes sel cfg p' = passes sel cfg p"
  using calc_metrics_fields [OF assms]
  by (simp add: passes_def pool_base_currency_def)

lemma candidates_pass:
  "candidates sel cfg pools = Inr cs \<Longrightarrow> p \<in> set cs \<Longrightarrow> passes sel cfg p"
proof (induction pools arbitrary: cs)
  case Nil
  then show ?case by simp
next
  case (Cons x xs)
  show ?case
  proof (cases "passes sel cfg x")
    case False
    with Cons show ?thesis by simp
  next
    case True
    with Cons.prems obtain x' rest where
      x': "calc_metrics sel x = Inr x'" and rest: "candidates sel cfg xs = Inr rest"
      and cs: "cs = x' # rest"
      by (auto split: sum.splits)
    from Cons.prems(2) cs have "p = x' \<or> p \<in> set rest" by simp
    then show ?thesis
    proof
      assume "p = x'"
      with calc_metrics_passes [OF x'] True show ?thesis by simp
    next
      assume "p \<in> set rest"
      with Cons.IH [OF rest] show ?thesis .
    qed
  qed
qed

text \<open>
  Claim C3. Whenever \<^verbatim>\<open>PoolSelector.filter\<close> returns a list, every pool in it has a 24h
  volume between the minimum and the maximum, a depth of at least the minimum, an absolute
  funding rate of at least the minimum and a spread of at most the maximum; its base
  currency is not blacklisted, and its rate is negative only if negative rates are allowed.
\<close>

theorem filter_pools_within_thresholds:
  assumes "filter_pools sel cfg pools = Inr result" and "p \<in> set result"
  shows "min_volume sel \<le> volume_24h p \<and> volume_24h p \<le> max_volume sel
       \<and> min_depth sel \<le> depth_05pct p
       \<and> min_rate sel \<le> \<bar>funding_rate p\<bar>
       \<and> spread p \<le> max_spread sel
       \<and> pool_base_currency p \<notin> blacklist sel
       \<and> (funding_rate p < 0 \<longrightarrow> allow_negative_rates cfg)"
proof -
  from assms obtain cs where cs: "candidates sel cfg pools = Inr cs"
    and res: "result = sort_key (\<lambda>p. - score_key p) cs"
    by (auto simp: filter_pools_def split: sum.splits)
  from assms(2) res have "p \<in> set cs" by simp
  with cs have "passes sel cfg p" by (rule candidates_pass)
  then show ?thesis
    by (auto simp: passes_def split: if_splits)
qed

theorem filter_pools_within_thresholds_witness:
  "(\<exists>p. filter_pools sel0 cfg0 [scenario_pool, negative_pool] = Inr [p]
        \<and> pool_symbol p = ''SOL/USDT:USDT'' \<and> funding_rate p = 6 / 1000
        \<and> min_volume sel0 \<le> volume_24h p \<and> volume_24h p \<le> max_volume sel0
        \<and> min_depth sel0 \<le> depth_05pct p
        \<and> min_rate sel0 \<le> \<bar>funding_rate p\<bar>
        \<and> spread p \<le> max_spread sel0)"
proof -
  have be: "breakeven_periods (funding_rate scenario_pool) default_spot_fee default_perp_fee
      = Inr (Periods 1)"
    by code_simp
  have neg: "\<not> passes sel0 cfg0 negative_pool"
    by (simp add: passes_def negative_pool_def sol_pool_def sel0_def cfg0_def pool_base_currency_def)
  have pos: "passes sel0 cfg0 scenario_pool"
    by (simp add: passes_def scenario_pool_def sel0_def cfg0_def pool_base_currency_def)
  obtain p where cm: "calc_metrics sel0 scenario_pool = Inr p"
    by (simp add: calc_metrics_def Let_def be decimal_div_def sel0_def)
  have run: "filter_pools sel0 cfg0 [scenario_pool, negative_pool] = Inr [p]"
    by (simp add: filter_pools_def neg pos cm)
  have mem: "p \<in> set [p]" by simp
  from filter_pools_within_thresholds [OF run mem] calc_metrics_fields [OF cm] run
  show ?thesis by (simp add: scenario_pool_def)
qed

section \<open>Break-even periods\<close>

text \<open>
  Claim C9 does not hold of the code: \<^verbatim>\<open>breakeven_periods\<close> takes the ceiling of the
  quotient after converting it to a float. For the rate 0.0027999999999999999 the
  quotient 0.0028 / rate lies above 1 by less than half the spacing of the doubles at 1,
  so the float is 1.0 and the result is 1, while the ceiling of the quotient is 2 and one
  period of funding at that rate does not cover the round-trip fee rate 0.0028.
\<close>

theorem breakeven_periods_float_rounds_down:
  "breakeven_periods near_fee_rate default_spot_fee default_perp_fee = Inr (Periods 1)
   \<and> \<lceil>2 * (default_spot_fee + default_perp_fee) / \<bar>near_fee_rate\<bar>\<rceil> = 2
   \<and> 1 * \<bar>near_fee_rate\<bar> < 2 * (default_spot_fee + default_perp_fee)"
  by code_simp

text \<open>
  What does hold: a zero rate gives infinity, and whenever the quotient is a double, so
  that the conversion changes nothing, the result is its ceiling and that many periods
  cover the round-trip fee rate.
\<close>

lemma breakeven_periods_zero_rate: "breakeven_periods 0 spot_fee perp_fee = Inr Infinite"
  by (simp add: breakeven_periods_def)

lemma breakeven_periods_exact_float:
  assumes "rate \<noteq> 0"
      and "py_float ((spot_fee + perp_fee) * 2 / \<bar>rate\<bar>) = Finite ((spot_fee + perp_fee) * 2 / \<bar>rate\<bar>)"
  shows "breakeven_periods rate spot_fee perp_fee
           = Inr (Periods \<lceil>(spot_fee + perp_fee) * 2 / \<bar>rate\<bar>\<rceil>)
       \<and> (spot_fee + perp_fee) * 2 \<le> of_int \<lceil>(spot_fee + perp_fee) * 2 / \<bar>rate\<bar>\<rceil> * \<bar>rate\<bar>"
proof -
  define n where "n = (spot_fee + perp_fee) * 2 / \<bar>rate\<bar>"
  from assms(1) have pos: "0 < \<bar>rate\<bar>" by simp
  then have prod: "n * \<bar>rate\<bar> = (spot_fee + perp_fee) * 2" by (simp add: n_def)
  have "n \<le> of_int \<lceil>n\<rceil>" by (rule le_of_int_ceiling)
  with pos have "n * \<bar>rate\<bar> \<le> of_int \<lceil>n\<rceil> * \<bar>rate\<bar>" by (simp add: mult_right_mono)
  with prod have cover: "(spot_fee + perp_fee) * 2 \<le> of_int \<lceil>n\<rceil> * \<bar>rate\<bar>" by simp
  from assms have "breakeven_periods rate spot_fee perp_fee = Inr (Periods \<lceil>n\<rceil>)"
    by (simp add: breakeven_periods_def Let_def n_def)
  then show ?thesis using cover unfolding n_def by (rule conjI)
qed

section \<open>Funding-rate reversal\<close>

text \<open>
  Claim C4 does not hold of the code. The history keeps the last three observed rates
  (two watch periods), but the rate taken as the position's original rate is the oldest
  entry of that window, not the rate at entry. With entry rate 0.004 followed by -0.0005,
  -0.0007 and -0.0006, the third check returns \<^verbatim>\<open>CLOSE\<close>; at the fourth the window is
  -0.0005, -0.0007, -0.0006, its first entry is not positive, and the check returns
  \<^verbatim>\<open>HOLD\<close> although the entry rate was positive and every later rate in the window is
  below -0.0001. When one weakly negative rate (-0.00005) comes first, no check ever
  returns \<^verbatim>\<open>CLOSE\<close>, however long the rate stays below the threshold.
\<close>

theorem rate_reversal_uses_oldest_rate_in_window:
  "check_each rm0 sol_position [4 / 1000, - 5 / 10000, - 7 / 10000, - 6 / 10000]
     = [Inr HOLD, Inr HOLD, Inr CLOSE, Inr HOLD]
   \<and> check_each rm0 sol_position [4 / 1000, - 5 / 100000, - 5 / 10000, - 7 / 10000, - 9 / 10000]
     = [Inr HOLD, Inr HOLD, Inr HOLD, Inr HOLD, Inr HOLD]"
  by (simp add: check_def check_delta_def delta_def notional_value_def decimal_div_def
        check_rate_reversal_def updated_history_def check_position_loss_def hold_def rm0_def sol_position_def
        new_position_def fill_def Let_def)

text \<open>
  What the code does: after a check the symbol's history is the window of the last
  \<^verbatim>\<open>rate_reversal_periods + 1\<close> rates, and once the window is full a check that returns
  gives \<^verbatim>\<open>CLOSE\<close> exactly when the oldest rate of the window is positive and all later ones
  are below the negated threshold, or the oldest rate is not positive and all later ones
  are above the threshold. With a window of a single rate there is no later rate, and the
  check raises while it builds the reason.
\<close>

lemma check_rate_reversal_history:
  "map_of (rate_history (snd (check_rate_reversal rm symb rate))) symb
     = Some (updated_history rm symb rate)"
  by (auto simp: check_rate_reversal_def Let_def update_conv' split: list.splits)

lemma check_rate_reversal_close_iff:
  assumes "check_rate_reversal rm symb rate = (Inr res, rm')"
      and "updated_history rm symb rate = initial_rate # recent_rates"
      and "rate_reversal_periods rm + 1 \<le> int (length (initial_rate # recent_rates))"
  shows "action res =
           (if 0 < initial_rate
            then (if list_all (\<lambda>r. r < - rate_reversal_threshold rm) recent_rates then CLOSE else HOLD)
            else (if list_all (\<lambda>r. rate_reversal_threshold rm < r) recent_rates then CLOSE else HOLD))"
  using assms
  by (auto simp: check_rate_reversal_def Let_def hold_def split: if_splits)

lemma check_rate_reversal_without_later_rate:
  assumes "updated_history rm symb rate = [initial_rate]"
      and "rate_reversal_periods rm + 1 \<le> 1"
  shows "fst (check_rate_reversal rm symb rate) = Inl IndexError"
  using assms
  by (simp add: check_rate_reversal_def Let_def)

section \<open>Replaying exchange payments\<close>

text \<open>
  Claim C5 does not hold of the code. The key under which a payment is looked up holds
  the timestamp string as the exchange gave it, while the row that is written holds the
  timestamp after parsing and formatting again. A payment whose timestamp is the ISO
  string \<^verbatim>\<open>2024-01-01 08:00:00\<close> is stored with \<^verbatim>\<open>2024-01-01T08:00:00\<close>; replaying
  the same list finds no row with its key, returns 1 again and appends a second,
  identical row.
\<close>

theorem sync_remote_payments_duplicates_blank_timestamp:
  "sync_remote_payments [] [blank_payment] = (Inr 1, [blank_row])
   \<and> sync_remote_payments [blank_row] [blank_payment] = (Inr 1, [blank_row, blank_row])"
  by code_simp

text \<open>
  The replay is idempotent as long as every timestamp is a \<^verbatim>\<open>datetime\<close> or a string in
  the form \<^verbatim>\<open>isoformat\<close> writes, which is what the Binance gateway passes: the rows
  written then carry the keys they were looked up under.
\<close>

lemma sync_loop_step:
  "sync_loop K R a (p # ps) =
     (case ts_iso_of p of
        None \<Rightarrow> sync_loop K R a ps
      | Some s \<Rightarrow>
          if (pay_symbol p, s, pay_income p) \<in> set K then sync_loop K R a ps
          else case fromisoformat s of
                 None \<Rightarrow> Inl ValueError
               | Some t \<Rightarrow>
                   sync_loop ((pay_symbol p, s, pay_income p) # K)
                     (R @ [\<lparr>fr_symbol = pay_symbol p, fr_rate = pay_rate p,
                            fr_position_value = pay_position_value p,
                            fr_income = pay_income p, fr_timestamp = isoformat t\<rparr>])
                     (a + 1) ps)"
  by (simp add: ts_iso_of_def Let_def split: ts_value.splits)

lemma sync_loop_appends:
  "sync_loop K R a ps = Inr (R', a') \<Longrightarrow> \<exists>new. R' = R @ new \<and> a' = a + length new"
proof (induction ps arbitrary: K R a)
  case Nil
  then show ?case by simp
next
  case (Cons p ps)
  show ?case
  proof (cases "ts_iso_of p")
    case None
    with Cons show ?thesis by (simp only: sync_loop_step option.case)
  next
    case (Some s)
    show ?thesis
    proof (cases "(pay_symbol p, s, pay_income p) \<in> set K")
      case True
      with Some Cons show ?thesis by (simp only: sync_loop_step option.case if_True)
    next
      case False
      with Some Cons.prems obtain t where t: "fromisoformat s = Some t"
        by (auto simp only: sync_loop_step option.case if_False split: option.splits)
      let ?row = "\<lparr>fr_symbol = pay_symbol p, fr_rate = pay_rate p,
                            fr_position_value = pay_position_value p,
                            fr_income = pay_income p, fr_timestamp = isoformat t\<rparr>"
      from Cons.prems Some False t
      have "sync_loop ((pay_symbol p, s, pay_income p) # K) (R @ [?row]) (a + 1) ps = Inr (R', a')"
        by (simp only: sync_loop_step option.case if_False)
      from Cons.IH [OF this] obtain new where "R' = (R @ [?row]) @ new" "a' = a + 1 + length new"
        by blast
      then have "R' = R @ (?row # new) \<and> a' = a + length (?row # new)" by simp
      then show ?thesis by blast
    qed
  qed
qed

lemma sync_loop_keys:
  assumes "sync_loop K R a ps = Inr (R', a')"
      and "\<forall>p \<in> set ps. normalised p"
      and "set K \<subseteq> row_key ` set R"
      and "p \<in> set ps" and "ts_iso_of p = Some s"
  shows "(pay_symbol p, s, pay_income p) \<in> row_key ` set R'"
  using assms
proof (induction ps arbitrary: K R a)
  case Nil
  then show ?case by simp
next
  case (Cons q ps)
  from Cons.prems(2) have nq: "normalised q" and nps: "\<forall>p \<in> set ps. normalised p" by auto
  show ?case
  proof (cases "ts_iso_of q")
    case None
    with Cons.prems(1) have run: "sync_loop K R a ps = Inr (R', a')"
      by (simp only: sync_loop_step option.case)
    from None Cons.prems(4,5) have "p \<in> set ps" by auto
    from Cons.IH [OF run nps Cons.prems(3) this Cons.prems(5)] show ?thesis .
  next
    case (Some u)
    let ?key = "(pay_symbol q, u, pay_income q)"
    show ?thesis
    proof (cases "?key \<in> set K")
      case True
      with Some Cons.prems(1) have run: "sync_loop K R a ps = Inr (R', a')"
        by (simp only: sync_loop_step option.case if_True)
      from sync_loop_appends [OF run] have sub: "set R \<subseteq> set R'" by auto
      show ?thesis
      proof (cases "p = q")
        case True
        with Some Cons.prems(5) have "s = u" by simp
        with \<open>?key \<in> set K\<close> \<open>p = q\<close> Cons.prems(3) sub show ?thesis by auto
      next
        case False
        with Cons.prems(4) have "p \<in> set ps" by simp
        from Cons.IH [OF run nps Cons.prems(3) this Cons.prems(5)] show ?thesis .
      qed
    next
      case False
      with Some Cons.prems(1) obtain t where t: "fromisoformat u = Some t"
        by (auto simp only: sync_loop_step option.case if_False split: option.splits)
      from nq Some t have iso: "isoformat t = u" by (simp add: normalised_def)
      let ?row = "\<lparr>fr_symbol = pay_symbol q, fr_rate = pay_rate q,
                            fr_position_value = pay_position_value q,
                            fr_income = pay_income q, fr_timestamp = isoformat t\<rparr>"
      have key: "row_key ?row = ?key" by (simp add: row_key_def iso)
      from Cons.prems(1) Some False t
      have run: "sync_loop (?key # K) (R @ [?row]) (a + 1) ps = Inr (R', a')"
        by (simp only: sync_loop_step option.case if_False)
      have inv: "set (?key # K) \<subseteq> row_key ` set (R @ [?row])"
        using Cons.prems(3) key by auto
      from sync_loop_appends [OF run] have sub: "set (R @ [?row]) \<subseteq> set R'" by auto
      show ?thesis
      proof (cases "p = q")
        case True
        with Some Cons.prems(5) have "s = u" by simp
        moreover have "?row \<in> set R'" using sub by auto
        ultimately show ?thesis using key \<open>p = q\<close> by (metis image_eqI)
      next
        case False
        with Cons.prems(4) have "p \<in> set ps" by simp
        from Cons.IH [OF run nps inv this Cons.prems(5)] show ?thesis .
      qed
    qed
  qed
qed

lemma sync_loop_all_known:
  "\<forall>p \<in> set ps. \<forall>s. ts_iso_of p = Some s \<longrightarrow> (pay_symbol p, s, pay_income p) \<in> set K \<Longrightarrow>
   sync_loop K R a ps = Inr (R, a)"
proof (induction ps)
  case Nil
  then show ?case by simp
next
  case (Cons p ps)
  then show ?case
    by (cases "ts_iso_of p") (simp_all only: sync_loop_step option.case, auto)
qed

lemma sync_remote_payments_idempotent_on_normalised:
  assumes norm: "\<forall>p \<in> set payments. normalised p"
      and first: "sync_remote_payments ledger payments = (Inr n, ledger')"
  shows "sync_remote_payments ledger' payments = (Inr 0, ledger')"
proof (cases "payments = []")
  case True
  then show ?thesis by (simp add: sync_remote_payments_def)
next
  case False
  with first obtain R' a' where
    run: "sync_loop (map row_key ledger) ledger 0 payments = Inr (R', a')"
    and res: "ledger' = (if a' \<noteq> 0 then R' else ledger)"
    by (auto simp: sync_remote_payments_def split: sum.splits prod.splits)
  from sync_loop_appends [OF run] obtain new where new: "R' = ledger @ new" "a' = length new"
    by auto
  with res have same: "ledger' = R'" by auto
  have "\<forall>p \<in> set payments. \<forall>s. ts_iso_of p = Some s \<longrightarrow>
          (pay_symbol p, s, pay_income p) \<in> set (map row_key ledger')"
    using sync_loop_keys [OF run norm] same by auto
  then have "sync_loop (map row_key ledger') ledger' 0 payments = Inr (ledger', 0)"
    by (rule sync_loop_all_known)
  with False show ?thesis by (simp add: sync_remote_payments_def)
qed

lemma blank_payment_not_normalised: "\<not> normalised blank_payment"
  by code_simp

lemma isoformat_payment_normalised:
  "normalised (blank_payment\<lparr>pay_timestamp := TsString ''2024-01-01T08:00:00''\<rparr>)
   \<and> normalised (blank_payment\<lparr>pay_timestamp := TsDatetime t0\<rparr>)"
  by code_simp

section \<open>Repair of a position with a missing leg\<close>

text \<open>
  Claim C6 does not hold of the code. For a tracked position whose perpetual leg is open
  at the exchange and whose spot leg is gone, the verification buys back the perpetual
  leg, removes the position from the executor's map and emits its warning and the
  Telegram alert; but it then calls a method \<^verbatim>\<open>delete\<close> that the position store does not
  have, the \<^verbatim>\<open>AttributeError\<close> is swallowed as a failed repair, and the row stays in the
  position file, from which the next start loads the position again.
\<close>

theorem verify_and_fix_leaves_row_in_position_file:
  "map_of (positions (sol_trader spot_gone_exchange)) ''SOL/USDT:USDT'' = Some sol_position
   \<and> positions (fst (verify_and_fix_positions cfg0 (sol_trader spot_gone_exchange))) = []
   \<and> positions_file (fst (verify_and_fix_positions cfg0 (sol_trader spot_gone_exchange)))
        = [(''SOL/USDT:USDT'', pos_dict sol_position)]
   \<and> calls (exchange (fst (verify_and_fix_positions cfg0 (sol_trader spot_gone_exchange))))
        = [FetchPositions, FetchBalance, PerpOrder ''SOL/USDT:USDT'' BUY 2 MARKET False]
   \<and> snd (verify_and_fix_positions cfg0 (sol_trader spot_gone_exchange))
        = [LogWarning (''SOL/USDT:USDT'', True, False),
           TelegramAlert [(''SOL/USDT:USDT'', True, False)]]"
  by code_simp

text \<open>
  The same holds of every run: the verification never changes the position file,
  whatever it repairs.
\<close>

lemma position_store_delete_raises: "position_store_delete raw symb = Inl AttributeError"
  by (simp add: position_store_delete_def position_store_methods_def)

lemma repair_keeps_position_file:
  "positions_file (repair st symb base perp_amt spot_total has_perp has_spot) = positions_file st"
  by (auto simp: repair_def position_store_delete_raises Let_def split: prod.splits sum.splits)

lemma fix_loop_keeps_position_file:
  "positions_file (fst (fix_loop perp_map balances st tracked)) = positions_file st"
proof (induction perp_map balances st tracked rule: fix_loop.induct)
  case (1 perp_map balances st)
  then show ?case by simp
next
  case (2 perp_map balances st symb pos rest)
  then show ?case
    by (simp add: Let_def case_prod_beta repair_keeps_position_file)
qed

lemma verify_and_fix_keeps_position_file:
  "positions_file (fst (verify_and_fix_positions cfg st)) = positions_file st"
proof -
  have "positions_file (fst (fix_loop perp_map balances (st\<lparr>exchange := ex\<rparr>) tracked)) = positions_file st"
    for perp_map balances ex tracked
    by (simp add: fix_loop_keeps_position_file)
  then show ?thesis
    by (simp add: verify_and_fix_positions_def case_prod_beta split: sum.splits)
qed

section \<open>Adoption of untracked exchange positions\<close>






end
